theory Spec2Isabelle
  imports Main "HOL-Library.Sublist"
begin

section \<open>The documentation page: app/docs/[[...slug]]/page.tsx\<close>

text \<open>
  The route parameters after \<^verbatim>\<open>await params\<close>: \<^verbatim>\<open>{ slug?: string[] }\<close>.
  An absent slug is \<open>None\<close>.
\<close>

record params =
  slug :: "string list option"

text \<open>
  What leaves \<^verbatim>\<open>Page\<close> as an exception: the value a promise rejected with, or
  the \<^verbatim>\<open>TypeError\<close> of reading a property of \<^verbatim>\<open>undefined\<close> or \<^verbatim>\<open>null\<close>.
\<close>

datatype error = Rejection string | TypeError

text \<open>
  The object the page renders from: the four fields \<^verbatim>\<open>body?\<close>, \<^verbatim>\<open>toc?\<close>,
  \<^verbatim>\<open>title?\<close>, \<^verbatim>\<open>description?\<close> that \<^verbatim>\<open>page.data\<close> and the value of
  \<^verbatim>\<open>data.load()\<close> share. The component type and the table of contents are opaque
  (\<^verbatim>\<open>ComponentType<any>\<close>, \<^verbatim>\<open>any\<close>): type parameters \<open>'c\<close> and \<open>'t\<close>. A field
  that is \<^verbatim>\<open>undefined\<close> is \<open>None\<close>.
\<close>

record ('c, 't) payload =
  body :: "'c option"
  toc :: "'t option"
  title :: "string option"
  description :: "string option"

text \<open>
  \<^verbatim>\<open>page.data\<close>: the payload fields and the optional \<^verbatim>\<open>load\<close>. The source calls
  \<^verbatim>\<open>load\<close> at most once per request and with no argument, so the function is
  represented by what awaiting its promise gives: \<open>Inl e\<close> when the promise rejects
  with \<open>e\<close>, \<open>Inr (Some p)\<close> when it resolves to the object \<open>p\<close>, and \<open>Inr None\<close>
  when it resolves to \<^verbatim>\<open>undefined\<close> or \<^verbatim>\<open>null\<close>. The declared type of the promise
  comes from a cast, so nothing checks that the value is an object. A resolved
  value that is neither an object nor nullish has none of the fields, and is the
  payload with every field absent.
\<close>

record ('c, 't) page_data = "('c, 't) payload" +
  load :: "(error + ('c, 't) payload option) option"

record ('c, 't) page =
  data :: "('c, 't) page_data"

text \<open>
  The calls \<^verbatim>\<open>Page\<close> makes to its collaborators, in order: \<^verbatim>\<open>source.getPage\<close>,
  \<^verbatim>\<open>data.load\<close> and \<^verbatim>\<open>notFound\<close>.
\<close>

datatype call = GetPage "string list" | Load | NotFoundCall

text \<open>
  The element tree \<^verbatim>\<open>Page\<close> returns. A child that the source renders as
  \<^verbatim>\<open>null\<close> is left out of the list. \<open>DocsBody c p\<close> is the body component \<open>c\<close>
  rendered with the link override \<^verbatim>\<open>createRelativeLink(source, page)\<close> for page \<open>p\<close>.
\<close>

datatype footer_component = DocFooterComponent

datatype ('c, 't) element =
    DocsTitle string
  | DocsDescription string
  | DocsBody 'c "('c, 't) page"

datatype ('c, 't) docs_page =
  DocsPage (toc_prop: "'t option") (footer_prop: footer_component)
    (children_prop: "('c, 't) element list")

text \<open>
  What a request ends with: \<^verbatim>\<open>notFound()\<close> was called (it throws the framework's
  not-found signal), another exception left \<^verbatim>\<open>Page\<close>, or the element tree.
\<close>

datatype ('c, 't) outcome =
    NotFound
  | Threw error
  | Rendered "('c, 't) docs_page"

text \<open>
  JavaScript truthiness of an optional string, as in \<^verbatim>\<open>loaded.title ? ... : null\<close>:
  \<^verbatim>\<open>undefined\<close> and the empty string are falsy.
\<close>

definition truthy :: "string option \<Rightarrow> bool" where
  "truthy s = (case s of None \<Rightarrow> False | Some t \<Rightarrow> t \<noteq> [])"

text \<open>
  \<^verbatim>\<open>Page\<close>, with \<^verbatim>\<open>source.getPage\<close> as a parameter (the content source is an
  external collaborator). The result is the list of collaborator calls made and
  the outcome. \<^verbatim>\<open>resolvedParams.slug ?? []\<close> is the first \<open>case\<close>; an awaited
  \<^verbatim>\<open>load\<close> that rejects is not caught anywhere in the source, so the rejection
  leaves \<^verbatim>\<open>Page\<close>; when it resolves to \<^verbatim>\<open>undefined\<close> or \<^verbatim>\<open>null\<close>, reading
  \<^verbatim>\<open>loaded.body\<close> throws before the test of the body is reached.
\<close>

definition Page ::
  "(string list \<Rightarrow> ('c, 't) page option) \<Rightarrow> params \<Rightarrow> call list \<times> ('c, 't) outcome" where
  "Page getPage resolvedParams =
    (let s = (case slug resolvedParams of None \<Rightarrow> [] | Some segs \<Rightarrow> segs) in
     case getPage s of
       None \<Rightarrow> ([GetPage s, NotFoundCall], NotFound)
     | Some page \<Rightarrow>
        (case (case load (data page) of
                 None \<Rightarrow> ([GetPage s], Inr (Some (payload.truncate (data page))))
               | Some awaited \<Rightarrow> ([GetPage s, Load], awaited)) of
           (calls, Inl e) \<Rightarrow> (calls, Threw e)
         | (calls, Inr None) \<Rightarrow> (calls, Threw TypeError)
         | (calls, Inr (Some loaded)) \<Rightarrow>
            (case body loaded of
               None \<Rightarrow> (calls @ [NotFoundCall], NotFound)
             | Some MdxContent \<Rightarrow>
                (calls,
                 Rendered
                  (DocsPage (toc loaded) DocFooterComponent
                    ((if truthy (title loaded) then [DocsTitle (the (title loaded))] else []) @
                     (if truthy (payload.description loaded)
                      then [DocsDescription (the (payload.description loaded))] else []) @
                     [DocsBody MdxContent page]))))))"

section \<open>The footer: app/docs/DocFooter.tsx\<close>

text \<open>
  An entry of the footer list (\<^verbatim>\<open>PageTreeItem\<close>): the fields the footer reads.
  \<^verbatim>\<open>description\<close> is optional.
\<close>

record PageTreeItem =
  url :: string
  name :: string
  description :: "string option"

text \<open>
  \<^verbatim>\<open>Array.prototype.findIndex\<close>: the index of the first element the predicate
  holds for, \<open>-1\<close> when there is none. The scan goes left to right and stops at
  the first hit.
\<close>

primrec findIndex_from :: "('a \<Rightarrow> bool) \<Rightarrow> int \<Rightarrow> 'a list \<Rightarrow> int" where
  "findIndex_from P k [] = - 1"
| "findIndex_from P k (x # xs) = (if P x then k else findIndex_from P (k + 1) xs)"

definition findIndex :: "('a \<Rightarrow> bool) \<Rightarrow> 'a list \<Rightarrow> int" where
  "findIndex P xs = findIndex_from P 0 xs"

text \<open>
  Reading \<^verbatim>\<open>xs[i]\<close> from a JavaScript array at an integer index: the element when
  \<open>0 \<le> i < length\<close>, \<^verbatim>\<open>undefined\<close> otherwise. No index raises.
\<close>

definition at :: "'a list \<Rightarrow> int \<Rightarrow> 'a option" where
  "at xs i = (if 0 \<le> i \<and> i < int (length xs) then Some (xs ! nat i) else None)"

text \<open>
  The callback of \<^verbatim>\<open>useMemo\<close> in \<^verbatim>\<open>DocFooter\<close>, which the specification calls
  \<open>neighbors\<close>. \<^verbatim>\<open>isActive\<close> comes from the navigation library and is a parameter;
  the source passes \<^verbatim>\<open>false\<close> as its third argument. The empty object \<^verbatim>\<open>{}\<close>
  destructures to \<^verbatim>\<open>previous\<close> and \<^verbatim>\<open>next\<close> both \<^verbatim>\<open>undefined\<close>.
\<close>

definition neighbors ::
  "(string \<Rightarrow> string \<Rightarrow> bool \<Rightarrow> bool) \<Rightarrow> PageTreeItem list \<Rightarrow> string \<Rightarrow>
     PageTreeItem option \<times> PageTreeItem option" where
  "neighbors isActive footerList pathname =
    (let idx = findIndex (\<lambda>item. isActive (url item) pathname False) footerList in
     if idx = - 1 then (None, None)
     else (at footerList (idx - 1), at footerList (idx + 1)))"

text \<open>
  \<^verbatim>\<open>useMemo(compute, deps)\<close> with its memo cell made explicit: the cell holds the
  dependencies and the value of the last computation; equal dependencies return the
  stored value without calling \<open>compute\<close>, anything else computes and stores.
  React compares each dependency with \<^verbatim>\<open>Object.is\<close>: the caller passes
  dependencies for which \<open>=\<close> is that comparison (a reference for an array, the
  characters for a string).
\<close>

definition useMemo ::
  "(unit \<Rightarrow> 'v) \<Rightarrow> 'd \<Rightarrow> ('d \<times> 'v) option \<Rightarrow> 'v \<times> ('d \<times> 'v) option" where
  "useMemo compute deps cell =
    (case cell of
       None \<Rightarrow> (let v = compute () in (v, Some (deps, v)))
     | Some (d, v0) \<Rightarrow>
        if d = deps then (v0, cell)
        else (let v = compute () in (v, Some (deps, v))))"

text \<open>What the footer renders.\<close>

datatype icon = ChevronLeft | ChevronRight

datatype footer_element =
    ItemLink (href: string) (text_end: bool) (row_reverse: bool) (link_icon: icon)
      (link_name: string) (link_description: string)
  | PlainLink string string

datatype footer_view =
  Grid (columnClass: string) (children: "footer_element list")

text \<open>
  \<^verbatim>\<open>FooterItemLink\<close>. \<^verbatim>\<open>index\<close> has the type \<^verbatim>\<open>0 | 1\<close>; the source tests
  \<^verbatim>\<open>index === 0\<close> for the icon and the default label and \<^verbatim>\<open>index === 1\<close> for the
  alignment classes. \<^verbatim>\<open>??\<close> replaces only an absent description.
\<close>

definition FooterItemLink :: "PageTreeItem \<Rightarrow> nat \<Rightarrow> footer_element" where
  "FooterItemLink item index =
    ItemLink (url item) (index = 1) (index = 1)
      (if index = 0 then ChevronLeft else ChevronRight)
      (name item)
      (case description item of
         Some d \<Rightarrow> d
       | None \<Rightarrow> (if index = 0 then ''Previous page'' else ''Next page''))"

definition Home :: footer_element where
  "Home = PlainLink ''/'' ''Home''"

text \<open>
  The element \<^verbatim>\<open>DocFooter\<close> returns once \<^verbatim>\<open>previous\<close> and \<^verbatim>\<open>next\<close> are known.
  An entry is an object and so always truthy: \<^verbatim>\<open>previous ? ... : null\<close> tests
  presence.
\<close>

definition footer_grid :: "PageTreeItem option \<Rightarrow> PageTreeItem option \<Rightarrow> footer_view" where
  "footer_grid previous next =
    Grid (if previous \<noteq> None \<and> next \<noteq> None then ''md:grid-cols-3'' else ''md:grid-cols-2'')
      ((case previous of None \<Rightarrow> [] | Some p \<Rightarrow> [FooterItemLink p 0]) @
       [Home] @
       (case next of None \<Rightarrow> [] | Some n \<Rightarrow> [FooterItemLink n 1]))"

text \<open>
  The state a render of \<^verbatim>\<open>DocFooter\<close> runs in. Arrays are objects with an
  identity: \<open>arrays\<close> gives the entries each array reference holds at the moment,
  \<open>footerList\<close> is the reference \<^verbatim>\<open>useFooterItems()\<close> returns, \<open>pathname\<close> the
  string \<^verbatim>\<open>usePathname()\<close> returns, and \<open>memo\<close> the cell of the \<^verbatim>\<open>useMemo\<close>,
  keyed by the reference and the path.
\<close>

type_synonym array_ref = nat

record footer_state =
  arrays :: "array_ref \<Rightarrow> PageTreeItem list"
  footerList :: array_ref
  pathname :: string
  memo ::
    "((array_ref \<times> string) \<times> (PageTreeItem option \<times> PageTreeItem option)) option"

text \<open>
  The \<^verbatim>\<open>useMemo\<close> statement of \<^verbatim>\<open>DocFooter\<close>: the pair
  \<^verbatim>\<open>{ previous, next }\<close> it yields and the memo cell after it. The callback
  reads the entries the reference holds when it runs.
\<close>

definition memoized_neighbors ::
  "(string \<Rightarrow> string \<Rightarrow> bool \<Rightarrow> bool) \<Rightarrow> footer_state \<Rightarrow>
     (PageTreeItem option \<times> PageTreeItem option) \<times>
     ((array_ref \<times> string) \<times> (PageTreeItem option \<times> PageTreeItem option)) option" where
  "memoized_neighbors isActive st =
    useMemo (\<lambda>_. neighbors isActive (arrays st (footerList st)) (pathname st))
      (footerList st, pathname st) (memo st)"

text \<open>One render of \<^verbatim>\<open>DocFooter\<close>: the element and the state after it.\<close>

definition DocFooter ::
  "(string \<Rightarrow> string \<Rightarrow> bool \<Rightarrow> bool) \<Rightarrow> footer_state \<Rightarrow> footer_view \<times> footer_state" where
  "DocFooter isActive st =
    (case memoized_neighbors isActive st of
       ((previous, next), cell) \<Rightarrow> (footer_grid previous next, st\<lparr>memo := cell\<rparr>))"

text \<open>
  A mounted \<^verbatim>\<open>DocFooter\<close> rendered again and again: before each render the hooks
  return a reference and a path, given as the list of pairs; the memo cell is
  carried from one render to the next, and nothing between the renders writes to
  an array. The result lists, for each render, the pair it used and the element
  it returned.
\<close>

primrec renders ::
  "(string \<Rightarrow> string \<Rightarrow> bool \<Rightarrow> bool) \<Rightarrow> footer_state \<Rightarrow> (array_ref \<times> string) list \<Rightarrow>
     ((PageTreeItem option \<times> PageTreeItem option) \<times> footer_view) list \<times> footer_state" where
  "renders isActive st [] = ([], st)"
| "renders isActive st (hooks # rest) =
    (let st0 = st\<lparr>footerList := fst hooks, pathname := snd hooks\<rparr>;
         pair = fst (memoized_neighbors isActive st0);
         rendered = DocFooter isActive st0;
         later = renders isActive (snd rendered) rest
     in ((pair, fst rendered) # fst later, snd later))"

text \<open>
  The memo cell is sound when the pair it holds is the one the callback computes
  from the entries its reference holds.
\<close>

definition memo_sound :: "(string \<Rightarrow> string \<Rightarrow> bool \<Rightarrow> bool) \<Rightarrow> footer_state \<Rightarrow> bool" where
  "memo_sound isActive st =
    (case memo st of
       None \<Rightarrow> True
     | Some ((r, p), v) \<Rightarrow> v = neighbors isActive (arrays st r) p)"

text \<open>
  Modelled from the spec: \<^verbatim>\<open>isActive\<close> of the navigation library, which is not
  part of the repository. An entry is active when its url equals the active path,
  or, in the nested mode, when the active path lies below the entry's url.
\<close>

definition isActive_spec :: "string \<Rightarrow> string \<Rightarrow> bool \<Rightarrow> bool" where
  "isActive_spec u p nested = (u = p \<or> (nested \<and> prefix (u @ ''/'') p))"

section \<open>Example data\<close>

text \<open>
  A small content source in the shape of the site's: an index page and a draft
  with their fields attached, and pages whose content is loaded on demand (one
  resolves with a body, one resolves without, one resolves to nothing, one
  rejects).
\<close>

definition inline_page :: "string option \<Rightarrow> string option \<Rightarrow> (string, nat) page" where
  "inline_page b t =
     \<lparr>data = \<lparr>body = b, toc = None, title = t, description = None, load = None\<rparr>\<rparr>"

definition deferred_page ::
  "(error + (string, nat) payload option) \<Rightarrow> (string, nat) page" where
  "deferred_page awaited =
     \<lparr>data = \<lparr>body = None, toc = None, title = None, description = None,
              load = Some awaited\<rparr>\<rparr>"

definition index_page :: "(string, nat) page" where
  "index_page = inline_page (Some ''Index'') (Some ''Notes'')"

definition ts_page :: "(string, nat) page" where
  "ts_page =
     deferred_page
       (Inr (Some \<lparr>body = Some ''TsNotes'', toc = Some 3, title = Some ''TypeScript'',
                   description = Some ''''\<rparr>))"

definition example_source :: "string list \<Rightarrow> (string, nat) page option" where
  "example_source s =
    (if s = [] then Some index_page
     else if s = [''typescript'', ''ts''] then Some ts_page
     else if s = [''redux'', ''rtk-rq''] then
       Some (deferred_page (Inl (Rejection ''module not found'')))
     else if s = [''redux'', ''redux''] then Some (deferred_page (Inr None))
     else if s = [''draft''] then Some (inline_page None (Some ''Draft''))
     else if s = [''draft'', ''deferred''] then
       Some (deferred_page
         (Inr (Some \<lparr>body = None, toc = None, title = Some ''Draft'',
                     description = None\<rparr>)))
     else None)"

text \<open>A footer entry with no description.\<close>

definition entry :: "string \<Rightarrow> string \<Rightarrow> PageTreeItem" where
  "entry u n = \<lparr>url = u, name = n, description = None\<rparr>"

text \<open>Two footer lists, held by the references \<open>0\<close> and \<open>1\<close>.\<close>

definition example_arrays :: "array_ref \<Rightarrow> PageTreeItem list" where
  "example_arrays r =
    (if r = 0 then
       [entry ''/a'' ''A'',
        \<lparr>url = ''/b'', name = ''B'', description = Some ''Basics''\<rparr>,
        entry ''/c'' ''C'']
     else if r = 1 then [entry ''/a'' ''A'', entry ''/b'' ''B'']
     else [])"

section \<open>Facts about the array operations\<close>

lemma findIndex_from_none:
  "(findIndex_from P k xs = - 1) = (\<forall>x \<in> set xs. \<not> P x)" if "0 \<le> k"
  using that
proof (induction xs arbitrary: k)
  case Nil
  show ?case by simp
next
  case (Cons x xs)
  from Cons.prems have "0 \<le> k + 1" by simp
  from Cons.IH [OF this] Cons.prems show ?case by auto
qed

lemma findIndex_from_first:
  "findIndex_from P k xs = k + int i"
  if "i < length xs" "P (xs ! i)" "\<forall>j < i. \<not> P (xs ! j)"
  using that
proof (induction xs arbitrary: k i)
  case Nil
  then show ?case by simp
next
  case (Cons x xs)
  show ?case
  proof (cases i)
    case 0
    with Cons.prems show ?thesis by simp
  next
    case (Suc m)
    from Cons.prems Suc have notx: "\<not> P x" by auto
    from Cons.prems Suc have m: "m < length xs" "P (xs ! m)" by auto
    from Cons.prems Suc have "\<forall>j < m. \<not> P (xs ! j)" by auto
    from Cons.IH [OF m this, of "k + 1"] notx Suc show ?thesis by simp
  qed
qed

lemma findIndex_none: "(findIndex P xs = - 1) = (\<forall>x \<in> set xs. \<not> P x)"
  by (simp add: findIndex_def findIndex_from_none)

lemma findIndex_first:
  "i < length xs \<Longrightarrow> P (xs ! i) \<Longrightarrow> \<forall>j < i. \<not> P (xs ! j) \<Longrightarrow> findIndex P xs = int i"
  using findIndex_from_first [of i xs P 0] by (simp add: findIndex_def)

lemma findIndex_from_range:
  "0 \<le> k \<Longrightarrow> findIndex_from P k xs = - 1 \<or>
     (k \<le> findIndex_from P k xs \<and> findIndex_from P k xs < k + int (length xs))"
proof (induction xs arbitrary: k)
  case Nil
  show ?case by simp
next
  case (Cons x xs)
  from Cons.prems have "0 \<le> k + 1" by simp
  from Cons.IH [OF this] show ?case by auto
qed

lemma findIndex_range:
  "findIndex P xs = - 1 \<or> (0 \<le> findIndex P xs \<and> findIndex P xs < int (length xs))"
  using findIndex_from_range [of 0 P xs] by (simp add: findIndex_def)

lemma neighbors_at_first:
  assumes "i < length navList"
    and "isActive (url (navList ! i)) activeUrl False"
    and "\<forall>j < i. \<not> isActive (url (navList ! j)) activeUrl False"
  shows "neighbors isActive navList activeUrl =
           (at navList (int i - 1), at navList (int i + 1))"
proof -
  have "findIndex (\<lambda>item. isActive (url item) activeUrl False) navList = int i"
    using assms by (intro findIndex_first) simp_all
  then show ?thesis by (simp add: neighbors_def Let_def)
qed

section \<open>Page resolution and content materialization\<close>

text \<open>
  Claim C1, as the source has it. For a page node that \<^verbatim>\<open>getPage\<close> returns: when
  the node declares no \<^verbatim>\<open>load\<close> and its own data has no body, or \<^verbatim>\<open>load\<close>
  resolves to an object that has no body, the outcome is not-found, reached by the
  call of \<^verbatim>\<open>notFound\<close>; a page is rendered only from a payload that has a body,
  and its last child is that body. When \<^verbatim>\<open>load\<close> rejects, the rejection leaves
  \<^verbatim>\<open>Page\<close>, and when \<^verbatim>\<open>load\<close> resolves to \<^verbatim>\<open>undefined\<close> or \<^verbatim>\<open>null\<close>, the
  \<^verbatim>\<open>TypeError\<close> of reading its body does: nothing in the source catches either,
  and \<^verbatim>\<open>notFound\<close> is not called.
\<close>

theorem Page_no_body:
  assumes "s = (case slug ps of None \<Rightarrow> [] | Some segs \<Rightarrow> segs)"
    and "getPage s = Some page"
  shows "(load (data page) = None \<and> body (data page) = None \<longrightarrow>
            Page getPage ps = ([GetPage s, NotFoundCall], NotFound)) \<and>
         (\<forall>loaded. load (data page) = Some (Inr (Some loaded)) \<and> body loaded = None \<longrightarrow>
            Page getPage ps = ([GetPage s, Load, NotFoundCall], NotFound)) \<and>
         (\<forall>e. load (data page) = Some (Inl e) \<longrightarrow>
            Page getPage ps = ([GetPage s, Load], Threw e)) \<and>
         (load (data page) = Some (Inr None) \<longrightarrow>
            Page getPage ps = ([GetPage s, Load], Threw TypeError)) \<and>
         (\<forall>v. snd (Page getPage ps) = Rendered v \<longrightarrow>
            (\<exists>loaded c.
               (load (data page) = None \<and> loaded = payload.truncate (data page) \<or>
                load (data page) = Some (Inr (Some loaded))) \<and>
               body loaded = Some c \<and> children_prop v \<noteq> [] \<and>
               last (children_prop v) = DocsBody c page \<and>
               NotFoundCall \<notin> set (fst (Page getPage ps))))"
proof (intro conjI allI impI)
  assume "load (data page) = None \<and> body (data page) = None"
  with assms show "Page getPage ps = ([GetPage s, NotFoundCall], NotFound)"
    by (simp add: Page_def Let_def payload.truncate_def)
next
  fix loaded :: "('a, 'b) payload"
  assume "load (data page) = Some (Inr (Some loaded)) \<and> body loaded = None"
  with assms show "Page getPage ps = ([GetPage s, Load, NotFoundCall], NotFound)"
    by (simp add: Page_def Let_def)
next
  fix e
  assume "load (data page) = Some (Inl e)"
  with assms show "Page getPage ps = ([GetPage s, Load], Threw e)"
    by (simp add: Page_def Let_def)
next
  assume "load (data page) = Some (Inr None)"
  with assms show "Page getPage ps = ([GetPage s, Load], Threw TypeError)"
    by (simp add: Page_def Let_def)
next
  fix v
  assume "snd (Page getPage ps) = Rendered v"
  with assms show "\<exists>loaded c.
       (load (data page) = None \<and> loaded = payload.truncate (data page) \<or>
        load (data page) = Some (Inr (Some loaded))) \<and>
       body loaded = Some c \<and> children_prop v \<noteq> [] \<and>
       last (children_prop v) = DocsBody c page \<and>
       NotFoundCall \<notin> set (fst (Page getPage ps))"
    by (auto simp: Page_def Let_def payload.truncate_def split: option.splits sum.splits)
qed

theorem Page_no_body_witness:
  "Page example_source \<lparr>slug = Some [''draft'']\<rparr> =
     ([GetPage [''draft''], NotFoundCall], NotFound) \<and>
   Page example_source \<lparr>slug = Some [''draft'', ''deferred'']\<rparr> =
     ([GetPage [''draft'', ''deferred''], Load, NotFoundCall], NotFound) \<and>
   Page example_source \<lparr>slug = Some [''redux'', ''rtk-rq'']\<rparr> =
     ([GetPage [''redux'', ''rtk-rq''], Load], Threw (Rejection ''module not found'')) \<and>
   Page example_source \<lparr>slug = Some [''redux'', ''redux'']\<rparr> =
     ([GetPage [''redux'', ''redux''], Load], Threw TypeError) \<and>
   snd (Page example_source \<lparr>slug = Some [''typescript'', ''ts'']\<rparr>) =
     Rendered (DocsPage (Some 3) DocFooterComponent
       [DocsTitle ''TypeScript'', DocsBody ''TsNotes'' ts_page]) \<and>
   (\<exists>loaded c. load (data ts_page) = Some (Inr (Some loaded)) \<and> body loaded = Some c \<and>
      last (children_prop (DocsPage (Some 3) DocFooterComponent
        [DocsTitle ''TypeScript'', DocsBody ''TsNotes'' ts_page])) = DocsBody c ts_page)"
proof -
  let ?empty = "\<lparr>body = None :: string option, toc = None :: nat option,
    title = Some ''Draft'', description = None\<rparr>"
  have a: "example_source [''draft''] = Some (inline_page None (Some ''Draft''))"
    by (simp add: example_source_def)
  have a': "load (data (inline_page None (Some ''Draft''))) = None \<and>
      body (data (inline_page None (Some ''Draft''))) = None"
    by (simp add: inline_page_def)
  have b: "example_source [''draft'', ''deferred''] = Some (deferred_page (Inr (Some ?empty)))"
    by (simp add: example_source_def)
  have b': "load (data (deferred_page (Inr (Some ?empty)))) = Some (Inr (Some ?empty)) \<and>
      body ?empty = None"
    by (simp add: deferred_page_def)
  have c: "example_source [''redux'', ''rtk-rq''] =
      Some (deferred_page (Inl (Rejection ''module not found'')))"
    by (simp add: example_source_def)
  have c': "load (data (deferred_page (Inl (Rejection ''module not found'')))) =
      Some (Inl (Rejection ''module not found''))"
    by (simp add: deferred_page_def)
  have d: "example_source [''redux'', ''redux''] = Some (deferred_page (Inr None))"
    by (simp add: example_source_def)
  have d': "load (data (deferred_page (Inr None :: error + (string, nat) payload option))) =
      Some (Inr None)"
    by (simp add: deferred_page_def)
  have e: "example_source [''typescript'', ''ts''] = Some ts_page"
    by (simp add: example_source_def)
  have e': "snd (Page example_source \<lparr>slug = Some [''typescript'', ''ts'']\<rparr>) =
     Rendered (DocsPage (Some 3) DocFooterComponent
       [DocsTitle ''TypeScript'', DocsBody ''TsNotes'' ts_page])"
    by (simp add: Page_def example_source_def ts_page_def deferred_page_def truthy_def)
  have e'': "load (data ts_page) \<noteq> None"
    by (simp add: ts_page_def deferred_page_def)
  have s: "xs = (case slug \<lparr>slug = Some xs\<rparr> of None \<Rightarrow> [] | Some segs \<Rightarrow> segs)"
    for xs :: "string list"
    by simp
  from Page_no_body [where getPage = example_source, OF s a] a'
  have 1: "Page example_source \<lparr>slug = Some [''draft'']\<rparr> =
     ([GetPage [''draft''], NotFoundCall], NotFound)"
    by blast
  from Page_no_body [where getPage = example_source, OF s b] b'
  have 2: "Page example_source \<lparr>slug = Some [''draft'', ''deferred'']\<rparr> =
     ([GetPage [''draft'', ''deferred''], Load, NotFoundCall], NotFound)"
    by blast
  from Page_no_body [where getPage = example_source, OF s c] c'
  have 3: "Page example_source \<lparr>slug = Some [''redux'', ''rtk-rq'']\<rparr> =
     ([GetPage [''redux'', ''rtk-rq''], Load], Threw (Rejection ''module not found''))"
    by blast
  from Page_no_body [where getPage = example_source, OF s d] d'
  have 4: "Page example_source \<lparr>slug = Some [''redux'', ''redux'']\<rparr> =
     ([GetPage [''redux'', ''redux''], Load], Threw TypeError)"
    by blast
  note r = Page_no_body [where getPage = example_source, OF s e]
  note r5 = conjunct2 [OF conjunct2 [OF conjunct2 [OF conjunct2 [OF r]]]]
  from r5 [rule_format, OF e'] e''
  have 5: "\<exists>loaded c. load (data ts_page) = Some (Inr (Some loaded)) \<and> body loaded = Some c \<and>
      last (children_prop (DocsPage (Some 3) DocFooterComponent
        [DocsTitle ''TypeScript'', DocsBody ''TsNotes'' ts_page])) = DocsBody c ts_page"
    by auto
  from 1 2 3 4 5 e' show ?thesis by blast
qed

text \<open>
  The statement of C1 itself does not hold: on a page whose \<^verbatim>\<open>load\<close> rejects, the
  request ends with the rejection, and on one whose \<^verbatim>\<open>load\<close> resolves to nothing,
  with a \<^verbatim>\<open>TypeError\<close>; neither is the not-found outcome.
\<close>

theorem Page_load_rejects_counterexample:
  "snd (Page example_source \<lparr>slug = Some [''redux'', ''rtk-rq'']\<rparr>) =
     Threw (Rejection ''module not found'') \<and>
   snd (Page example_source \<lparr>slug = Some [''redux'', ''rtk-rq'']\<rparr>) \<noteq> NotFound \<and>
   snd (Page example_source \<lparr>slug = Some [''redux'', ''redux'']\<rparr>) = Threw TypeError \<and>
   snd (Page example_source \<lparr>slug = Some [''redux'', ''redux'']\<rparr>) \<noteq> NotFound"
  by (simp add: Page_def example_source_def deferred_page_def)

text \<open>
  Claim C2. When \<^verbatim>\<open>getPage\<close> returns no page for the request's slug, the outcome
  is not-found, and the only collaborator calls are the one \<^verbatim>\<open>getPage\<close> and the
  \<^verbatim>\<open>notFound\<close> that ends the request: nothing is loaded or rendered, and the
  lookup is not made a second time.
\<close>

theorem Page_not_found:
  assumes "getPage (case slug ps of None \<Rightarrow> [] | Some segs \<Rightarrow> segs) = None"
  shows "Page getPage ps =
           ([GetPage (case slug ps of None \<Rightarrow> [] | Some segs \<Rightarrow> segs), NotFoundCall],
            NotFound)"
  using assms by (simp add: Page_def Let_def)

theorem Page_not_found_witness:
  "Page example_source \<lparr>slug = Some [''typescript'', ''does-not-exist'']\<rparr> =
     ([GetPage [''typescript'', ''does-not-exist''], NotFoundCall], NotFound)"
proof -
  have "example_source (case slug \<lparr>slug = Some [''typescript'', ''does-not-exist'']\<rparr> of
      None \<Rightarrow> [] | Some segs \<Rightarrow> segs) = None"
    by (simp add: example_source_def)
  from Page_not_found
    [where getPage = example_source and
      ps = "\<lparr>slug = Some [''typescript'', ''does-not-exist'']\<rparr>", OF this]
  show ?thesis by simp
qed

text \<open>
  Claim C9. A request whose params carry no slug behaves as the request for the
  empty slug: \<^verbatim>\<open>getPage\<close> is called once, with the empty list, and when the
  content source has an index page with its body attached, that page is rendered.
\<close>

theorem Page_absent_slug:
  "Page getPage \<lparr>slug = None\<rparr> = Page getPage \<lparr>slug = Some []\<rparr> \<and>
   filter (\<lambda>c. c \<noteq> Load \<and> c \<noteq> NotFoundCall) (fst (Page getPage \<lparr>slug = None\<rparr>)) =
     [GetPage []] \<and>
   (\<forall>page c. getPage [] = Some page \<and> load (data page) = None \<and> body (data page) = Some c \<longrightarrow>
      (\<exists>v. snd (Page getPage \<lparr>slug = None\<rparr>) = Rendered v \<and>
           last (children_prop v) = DocsBody c page))"
  by (auto simp: Page_def Let_def payload.truncate_def split: option.splits sum.splits)

theorem Page_absent_slug_witness:
  "Page example_source \<lparr>slug = None\<rparr> = Page example_source \<lparr>slug = Some []\<rparr> \<and>
   filter (\<lambda>c. c \<noteq> Load \<and> c \<noteq> NotFoundCall) (fst (Page example_source \<lparr>slug = None\<rparr>)) =
     [GetPage []] \<and>
   (\<exists>v. snd (Page example_source \<lparr>slug = None\<rparr>) = Rendered v \<and>
        last (children_prop v) = DocsBody ''Index'' index_page)"
proof -
  have "example_source [] = Some index_page \<and> load (data index_page) = None \<and>
      body (data index_page) = Some ''Index''"
    by (simp add: example_source_def index_page_def inline_page_def)
  with Page_absent_slug [where getPage = example_source] show ?thesis by blast
qed

section \<open>Previous and next entries\<close>

text \<open>
  Claim C3. When exactly one entry of the list is active for the active path and
  its index \<open>i\<close> is neither the first nor the last, \<^verbatim>\<open>previous\<close> is the entry at
  \<open>i - 1\<close> and \<^verbatim>\<open>next\<close> is the entry at \<open>i + 1\<close>.
\<close>

theorem neighbors_interior:
  assumes "i < length navList"
    and "isActive (url (navList ! i)) activeUrl False"
    and "\<forall>j < length navList. j \<noteq> i \<longrightarrow> \<not> isActive (url (navList ! j)) activeUrl False"
    and "0 < i" and "i < length navList - 1"
  shows "neighbors isActive navList activeUrl =
           (Some (navList ! (i - 1)), Some (navList ! (i + 1)))"
proof -
  have "\<forall>j < i. \<not> isActive (url (navList ! j)) activeUrl False"
    using assms(1,3) by auto
  from neighbors_at_first [of i navList isActive activeUrl, OF assms(1,2) this]
  have "neighbors isActive navList activeUrl =
          (at navList (int i - 1), at navList (int i + 1))" .
  moreover have "at navList (int i - 1) = Some (navList ! (i - 1))"
    using assms(1,4) by (simp add: at_def nat_diff_distrib')
  moreover have "at navList (int i + 1) = Some (navList ! (i + 1))"
    using assms(5) by (simp add: at_def nat_add_distrib)
  ultimately show ?thesis by simp
qed

theorem neighbors_interior_witness:
  "neighbors isActive_spec [entry ''/a'' ''A'', entry ''/b'' ''B'', entry ''/c'' ''C''] ''/b'' =
     (Some (entry ''/a'' ''A''), Some (entry ''/c'' ''C''))"
proof -
  let ?xs = "[entry ''/a'' ''A'', entry ''/b'' ''B'', entry ''/c'' ''C'']"
  have 1: "(1::nat) < length ?xs" by simp
  have 2: "isActive_spec (url (?xs ! 1)) ''/b'' False"
    by (simp add: isActive_spec_def entry_def)
  have 3: "\<forall>j < length ?xs. j \<noteq> 1 \<longrightarrow> \<not> isActive_spec (url (?xs ! j)) ''/b'' False"
    by (simp add: isActive_spec_def entry_def nth_Cons' less_Suc_eq numeral_3_eq_3)
  have 4: "(0::nat) < 1" by simp
  have 5: "(1::nat) < length ?xs - 1" by simp
  from neighbors_interior [of 1 ?xs isActive_spec "''/b''", OF 1 2 3 4 5]
  show ?thesis by simp
qed

text \<open>
  Claim C4. When no entry of the list is active, \<^verbatim>\<open>previous\<close> and \<^verbatim>\<open>next\<close> are
  both absent, and the footer still renders: whatever reference holds the list, a
  fresh render gives the two-column grid with the Home link alone.
\<close>

theorem neighbors_no_active:
  assumes "\<forall>item \<in> set navList. \<not> isActive (url item) activeUrl False"
  shows "neighbors isActive navList activeUrl = (None, None) \<and>
         fst (DocFooter isActive
           \<lparr>arrays = mem(r := navList), footerList = r, pathname = activeUrl, memo = None\<rparr>) =
           Grid ''md:grid-cols-2'' [Home]"
proof -
  have "findIndex (\<lambda>item. isActive (url item) activeUrl False) navList = - 1"
    using assms by (simp add: findIndex_none)
  then have n: "neighbors isActive navList activeUrl = (None, None)"
    by (simp add: neighbors_def Let_def)
  then show ?thesis
    by (simp add: DocFooter_def memoized_neighbors_def useMemo_def footer_grid_def Let_def)
qed

theorem neighbors_no_active_witness:
  "neighbors isActive_spec [entry ''/a'' ''A'', entry ''/b'' ''B''] ''/z'' = (None, None) \<and>
   fst (DocFooter isActive_spec
      \<lparr>arrays = example_arrays(1 := [entry ''/a'' ''A'', entry ''/b'' ''B'']),
       footerList = 1, pathname = ''/z'', memo = None\<rparr>) =
     Grid ''md:grid-cols-2'' [Home]"
proof -
  have "\<forall>item \<in> set [entry ''/a'' ''A'', entry ''/b'' ''B''].
      \<not> isActive_spec (url item) ''/z'' False"
    by (simp add: isActive_spec_def entry_def)
  from neighbors_no_active
    [of "[entry ''/a'' ''A'', entry ''/b'' ''B'']" isActive_spec "''/z''", OF this]
  show ?thesis .
qed

text \<open>
  Claim C5. On a non-empty list, when the first entry is active, \<^verbatim>\<open>previous\<close> is
  absent; when the last entry is the active one (it is active and no entry before
  it is), \<^verbatim>\<open>next\<close> is absent.
\<close>

theorem neighbors_first_last:
  "(navList \<noteq> [] \<and> isActive (url (hd navList)) activeUrl False \<longrightarrow>
      fst (neighbors isActive navList activeUrl) = None) \<and>
   (navList \<noteq> [] \<and> isActive (url (last navList)) activeUrl False \<and>
    (\<forall>j < length navList - 1. \<not> isActive (url (navList ! j)) activeUrl False) \<longrightarrow>
      snd (neighbors isActive navList activeUrl) = None)"
proof (intro conjI impI)
  assume a: "navList \<noteq> [] \<and> isActive (url (hd navList)) activeUrl False"
  then have "0 < length navList" "isActive (url (navList ! 0)) activeUrl False"
    by (auto simp: hd_conv_nth)
  from neighbors_at_first [of 0 navList isActive activeUrl, OF this]
  show "fst (neighbors isActive navList activeUrl) = None"
    by (simp add: at_def)
next
  assume a: "navList \<noteq> [] \<and> isActive (url (last navList)) activeUrl False \<and>
    (\<forall>j < length navList - 1. \<not> isActive (url (navList ! j)) activeUrl False)"
  then have "length navList - 1 < length navList"
    "isActive (url (navList ! (length navList - 1))) activeUrl False"
    "\<forall>j < length navList - 1. \<not> isActive (url (navList ! j)) activeUrl False"
    by (auto simp: last_conv_nth)
  from neighbors_at_first [of "length navList - 1" navList isActive activeUrl, OF this] a
  show "snd (neighbors isActive navList activeUrl) = None"
    by (simp add: at_def of_nat_diff)
qed

theorem neighbors_first_last_witness:
  "fst (neighbors isActive_spec
      [entry ''/a'' ''A'', entry ''/b'' ''B'', entry ''/c'' ''C''] ''/a'') = None \<and>
   snd (neighbors isActive_spec
      [entry ''/a'' ''A'', entry ''/b'' ''B'', entry ''/c'' ''C''] ''/c'') = None"
proof -
  let ?xs = "[entry ''/a'' ''A'', entry ''/b'' ''B'', entry ''/c'' ''C'']"
  have f: "?xs \<noteq> [] \<and> isActive_spec (url (hd ?xs)) ''/a'' False"
    by (simp add: isActive_spec_def entry_def)
  have l: "?xs \<noteq> [] \<and> isActive_spec (url (last ?xs)) ''/c'' False \<and>
    (\<forall>j < length ?xs - 1. \<not> isActive_spec (url (?xs ! j)) ''/c'' False)"
    by (simp add: isActive_spec_def entry_def nth_Cons' less_Suc_eq numeral_2_eq_2)
  from neighbors_first_last [of ?xs isActive_spec "''/a''"] f
  have "fst (neighbors isActive_spec ?xs ''/a'') = None" by blast
  moreover from neighbors_first_last [of ?xs isActive_spec "''/c''"] l
  have "snd (neighbors isActive_spec ?xs ''/c'') = None" by blast
  ultimately show ?thesis by simp
qed

text \<open>
  Claim C6. The result is fixed by the first active index alone: with \<open>i\<close> the
  first index whose entry is active, \<^verbatim>\<open>previous\<close> and \<^verbatim>\<open>next\<close> are the entries
  on either side of \<open>i\<close>, whatever entries after \<open>i\<close> are active as well.
\<close>

theorem neighbors_first_match:
  assumes "i < length navList"
    and "isActive (url (navList ! i)) activeUrl False"
    and "\<forall>j < i. \<not> isActive (url (navList ! j)) activeUrl False"
  shows "neighbors isActive navList activeUrl =
           (if i = 0 then None else Some (navList ! (i - 1)),
            if i + 1 < length navList then Some (navList ! (i + 1)) else None)"
proof -
  have "at navList (int i - 1) = (if i = 0 then None else Some (navList ! (i - 1)))"
    using assms(1) by (simp add: at_def nat_diff_distrib')
  moreover have "at navList (int i + 1) =
      (if i + 1 < length navList then Some (navList ! (i + 1)) else None)"
    by (auto simp add: at_def nat_add_distrib)
  ultimately show ?thesis
    using neighbors_at_first [of i navList isActive activeUrl, OF assms] by simp
qed

theorem neighbors_first_match_witness:
  "neighbors isActive_spec
     [entry ''/a'' ''A'', entry ''/b'' ''B1'', entry ''/c'' ''C'', entry ''/b'' ''B2'',
      entry ''/d'' ''D''] ''/b'' =
     (Some (entry ''/a'' ''A''), Some (entry ''/c'' ''C''))"
proof -
  let ?xs = "[entry ''/a'' ''A'', entry ''/b'' ''B1'', entry ''/c'' ''C'', entry ''/b'' ''B2'',
      entry ''/d'' ''D'']"
  have 1: "(1::nat) < length ?xs" by simp
  have 2: "isActive_spec (url (?xs ! 1)) ''/b'' False"
    by (simp add: isActive_spec_def entry_def)
  have 3: "\<forall>j < (1::nat). \<not> isActive_spec (url (?xs ! j)) ''/b'' False"
    by (simp add: isActive_spec_def entry_def)
  from neighbors_first_match [of 1 ?xs isActive_spec "''/b''", OF 1 2 3]
  show ?thesis by simp
qed

text \<open>
  Claim C10. The reads at the ends of the list are defined. Index \<open>-1\<close> and the
  index one past the end both read as absent; when the active index is \<open>0\<close> the
  \<^verbatim>\<open>previous\<close> read is the one at \<open>-1\<close>, when it is the last index the \<^verbatim>\<open>next\<close>
  read is the one past the end; and for every list and active path the index found
  lies between \<open>-1\<close> and the last index, with the result given by it.
\<close>

theorem neighbors_boundary_reads:
  "at navList (- 1) = None \<and> at navList (int (length navList)) = None \<and>
   (findIndex (\<lambda>item. isActive (url item) activeUrl False) navList = 0 \<longrightarrow>
      neighbors isActive navList activeUrl = (at navList (- 1), at navList 1)) \<and>
   (navList \<noteq> [] \<and>
    findIndex (\<lambda>item. isActive (url item) activeUrl False) navList = int (length navList) - 1 \<longrightarrow>
      neighbors isActive navList activeUrl =
        (at navList (int (length navList) - 2), at navList (int (length navList)))) \<and>
   (\<exists>idx. - 1 \<le> idx \<and> idx < int (length navList) \<and>
      neighbors isActive navList activeUrl =
        (if idx = - 1 then (None, None) else (at navList (idx - 1), at navList (idx + 1))))"
proof -
  let ?idx = "findIndex (\<lambda>item. isActive (url item) activeUrl False) navList"
  have "- 1 \<le> ?idx \<and> ?idx < int (length navList)"
    using findIndex_range [of "\<lambda>item. isActive (url item) activeUrl False" navList] by auto
  moreover have "neighbors isActive navList activeUrl =
        (if ?idx = - 1 then (None, None) else (at navList (?idx - 1), at navList (?idx + 1)))"
    by (simp add: neighbors_def Let_def)
  ultimately have "\<exists>idx. - 1 \<le> idx \<and> idx < int (length navList) \<and>
      neighbors isActive navList activeUrl =
        (if idx = - 1 then (None, None) else (at navList (idx - 1), at navList (idx + 1)))"
    by blast
  moreover have "navList \<noteq> [] \<Longrightarrow> int (length navList) - 1 \<noteq> - 1" by simp
  ultimately show ?thesis
    by (simp add: neighbors_def Let_def at_def)
qed

theorem neighbors_boundary_reads_witness:
  "neighbors isActive_spec [entry ''/a'' ''A'', entry ''/b'' ''B''] ''/a'' =
     (None, Some (entry ''/b'' ''B'')) \<and>
   neighbors isActive_spec [entry ''/a'' ''A'', entry ''/b'' ''B''] ''/b'' =
     (Some (entry ''/a'' ''A''), None) \<and>
   neighbors isActive_spec [entry ''/a'' ''A''] ''/a'' = (None, None)"
proof -
  let ?xs = "[entry ''/a'' ''A'', entry ''/b'' ''B'']"
  have a: "findIndex (\<lambda>item. isActive_spec (url item) ''/a'' False) ?xs = 0"
    by (simp add: findIndex_def isActive_spec_def entry_def)
  have b: "?xs \<noteq> [] \<and>
    findIndex (\<lambda>item. isActive_spec (url item) ''/b'' False) ?xs = int (length ?xs) - 1"
    by (simp add: findIndex_def isActive_spec_def entry_def)
  have c: "findIndex (\<lambda>item. isActive_spec (url item) ''/a'' False) [entry ''/a'' ''A''] = 0"
    by (simp add: findIndex_def isActive_spec_def entry_def)
  from neighbors_boundary_reads [where navList = ?xs and isActive = isActive_spec and activeUrl = "''/a''"] a
  have 1: "neighbors isActive_spec ?xs ''/a'' = (None, Some (entry ''/b'' ''B''))"
    by (simp add: at_def)
  from neighbors_boundary_reads [where navList = ?xs and isActive = isActive_spec and activeUrl = "''/b''"] b
  have 2: "neighbors isActive_spec ?xs ''/b'' = (Some (entry ''/a'' ''A''), None)"
    by (simp add: at_def)
  from neighbors_boundary_reads [where navList = "[entry ''/a'' ''A'']" and isActive = isActive_spec and activeUrl = "''/a''"] c
  have 3: "neighbors isActive_spec [entry ''/a'' ''A''] ''/a'' = (None, None)"
    by (simp add: at_def)
  from 1 2 3 show ?thesis by simp
qed

section \<open>Rendering the footer\<close>

lemma memoized_neighbors_sound:
  assumes "memo_sound isActive st"
  shows "fst (memoized_neighbors isActive st) =
           neighbors isActive (arrays st (footerList st)) (pathname st)"
  using assms
  by (auto simp: memoized_neighbors_def useMemo_def memo_sound_def Let_def
      split: option.splits prod.splits)

lemma memoized_neighbors_cell:
  "snd (memoized_neighbors isActive st) =
     Some ((footerList st, pathname st), fst (memoized_neighbors isActive st))"
  by (auto simp: memoized_neighbors_def useMemo_def Let_def split: option.splits prod.splits)

lemma DocFooter_view:
  "fst (DocFooter isActive st) =
     footer_grid (fst (fst (memoized_neighbors isActive st)))
       (snd (fst (memoized_neighbors isActive st)))"
  by (simp add: DocFooter_def split: prod.splits)

lemma DocFooter_state:
  "snd (DocFooter isActive st) = st\<lparr>memo := snd (memoized_neighbors isActive st)\<rparr>"
  by (simp add: DocFooter_def split: prod.splits)

lemma DocFooter_sound:
  assumes "memo_sound isActive st"
  shows "memo_sound isActive (snd (DocFooter isActive st))"
  using memoized_neighbors_sound [OF assms]
  by (simp add: DocFooter_state memoized_neighbors_cell memo_sound_def)

lemma memo_sound_hooks:
  "memo_sound isActive (st\<lparr>footerList := r, pathname := p\<rparr>) = memo_sound isActive st"
  by (simp add: memo_sound_def split: option.splits prod.splits)

lemma renders_sound:
  assumes "memo_sound isActive st"
  shows "fst (renders isActive st hooks) =
           map (\<lambda>(r, p). (neighbors isActive (arrays st r) p,
                  footer_grid (fst (neighbors isActive (arrays st r) p))
                    (snd (neighbors isActive (arrays st r) p)))) hooks \<and>
         arrays (snd (renders isActive st hooks)) = arrays st"
  using assms
proof (induction hooks arbitrary: st)
  case Nil
  show ?case by simp
next
  case (Cons h hooks)
  let ?st0 = "st\<lparr>footerList := fst h, pathname := snd h\<rparr>"
  let ?st1 = "snd (DocFooter isActive ?st0)"
  from Cons.prems have s0: "memo_sound isActive ?st0"
    by (simp add: memo_sound_hooks)
  then have s1: "memo_sound isActive ?st1"
    by (rule DocFooter_sound)
  have a1: "arrays ?st1 = arrays st"
    by (simp add: DocFooter_state)
  from memoized_neighbors_sound [OF s0]
  have p: "fst (memoized_neighbors isActive ?st0) =
      neighbors isActive (arrays st (fst h)) (snd h)"
    by simp
  from Cons.IH [OF s1] a1 p show ?case
    by (simp add: Let_def DocFooter_view split: prod.splits)
qed

text \<open>
  The cell is keyed by the reference, as in the source: were the entries of an
  array replaced in place between two renders, the second render would be served
  the pair of the old entries. The sequences of renders considered below leave the
  arrays alone between the renders.
\<close>

lemma memo_keyed_by_reference:
  "fst (memoized_neighbors isActive_spec
     ((snd (DocFooter isActive_spec
         \<lparr>arrays = example_arrays, footerList = 0, pathname = ''/b'', memo = None\<rparr>))
      \<lparr>arrays := example_arrays(0 := [entry ''/b'' ''B''])\<rparr>)) =
     (Some (entry ''/a'' ''A''), Some (entry ''/c'' ''C'')) \<and>
   neighbors isActive_spec [entry ''/b'' ''B''] ''/b'' = (None, None)"
  by (simp add: DocFooter_def memoized_neighbors_def useMemo_def neighbors_def findIndex_def
      at_def isActive_spec_def entry_def example_arrays_def Let_def)

text \<open>
  Claim C7. Through any sequence of renders of a mounted \<^verbatim>\<open>DocFooter\<close>, the pair
  each render uses is the value of \<open>neighbors\<close> on the entries of the list and the
  path it is rendered with, whatever was rendered before: the memo cell, keyed by
  the list's reference and the path, never serves a pair computed from other
  inputs, so equal inputs give equal pairs and equal elements. And the renders
  leave every array as it was.
\<close>

theorem renders_pure:
  "fst (renders isActive (st\<lparr>memo := None\<rparr>) hooks) =
     map (\<lambda>(r, p). (neighbors isActive (arrays st r) p,
            footer_grid (fst (neighbors isActive (arrays st r) p))
              (snd (neighbors isActive (arrays st r) p)))) hooks \<and>
   arrays (snd (renders isActive (st\<lparr>memo := None\<rparr>) hooks)) = arrays st"
proof -
  have "memo_sound isActive (st\<lparr>memo := None\<rparr>)"
    by (simp add: memo_sound_def)
  from renders_sound [OF this, of hooks] show ?thesis by simp
qed

theorem renders_pure_witness:
  "map fst (fst (renders isActive_spec
      \<lparr>arrays = example_arrays, footerList = 0, pathname = [], memo = None\<rparr>
      [(0, ''/b''), (0, ''/b''), (1, ''/b''), (0, ''/c''), (0, ''/b'')])) =
     [(Some (entry ''/a'' ''A''), Some (entry ''/c'' ''C'')),
      (Some (entry ''/a'' ''A''), Some (entry ''/c'' ''C'')),
      (Some (entry ''/a'' ''A''), None),
      (Some \<lparr>url = ''/b'', name = ''B'', description = Some ''Basics''\<rparr>, None),
      (Some (entry ''/a'' ''A''), Some (entry ''/c'' ''C''))] \<and>
   arrays (snd (renders isActive_spec
      \<lparr>arrays = example_arrays, footerList = 0, pathname = [], memo = None\<rparr>
      [(0, ''/b''), (0, ''/b''), (1, ''/b''), (0, ''/c''), (0, ''/b'')])) = example_arrays"
proof -
  let ?st = "\<lparr>arrays = example_arrays, footerList = 0, pathname = [], memo = None\<rparr>"
  have n0b: "neighbors isActive_spec (example_arrays 0) ''/b'' =
      (Some (entry ''/a'' ''A''), Some (entry ''/c'' ''C''))"
    by (simp add: neighbors_def findIndex_def at_def isActive_spec_def entry_def
        example_arrays_def)
  have n1b: "neighbors isActive_spec (example_arrays (Suc 0)) ''/b'' =
      (Some (entry ''/a'' ''A''), None)"
    by (simp add: neighbors_def findIndex_def at_def isActive_spec_def entry_def
        example_arrays_def)
  have n0c: "neighbors isActive_spec (example_arrays 0) ''/c'' =
      (Some \<lparr>url = ''/b'', name = ''B'', description = Some ''Basics''\<rparr>, None)"
    by (simp add: neighbors_def findIndex_def at_def isActive_spec_def entry_def
        example_arrays_def)
  from renders_pure [where isActive = isActive_spec and st = ?st and
      hooks = "[(0, ''/b''), (0, ''/b''), (1, ''/b''), (0, ''/c''), (0, ''/b'')]"]
  show ?thesis
    by (simp add: n0b n1b n0c del: renders.simps)
qed

text \<open>
  Claim C8. The description line of the previous link is the entry's description,
  or \<^verbatim>\<open>Previous page\<close> when it has none; that of the next link is the entry's
  description, or \<^verbatim>\<open>Next page\<close>. What \<^verbatim>\<open>DocFooter\<close> renders, for the pair
  of entries its \<^verbatim>\<open>useMemo\<close> yields, is: the link to the previous entry when
  there is one (its url, the left chevron, its name, that description line), then
  the link to \<^verbatim>\<open>/\<close> with the text \<^verbatim>\<open>Home\<close>, then the link to the next entry
  when there is one (its url, the right chevron, end-aligned, its name, that
  description line). On a fresh memo cell the pair is the value of \<open>neighbors\<close>.
\<close>

theorem footer_links:
  "link_description (FooterItemLink item 0) =
     (case description item of None \<Rightarrow> ''Previous page'' | Some d \<Rightarrow> d) \<and>
   link_description (FooterItemLink item 1) =
     (case description item of None \<Rightarrow> ''Next page'' | Some d \<Rightarrow> d) \<and>
   children (footer_grid previous next) =
     (case previous of None \<Rightarrow> [] | Some p \<Rightarrow> [FooterItemLink p 0]) @
     [PlainLink ''/'' ''Home''] @
     (case next of None \<Rightarrow> [] | Some n \<Rightarrow> [FooterItemLink n 1]) \<and>
   children (fst (DocFooter isActive st)) =
     (case fst (fst (memoized_neighbors isActive st)) of
        None \<Rightarrow> []
      | Some p \<Rightarrow>
          [ItemLink (url p) False False ChevronLeft (name p)
             (case description p of None \<Rightarrow> ''Previous page'' | Some d \<Rightarrow> d)]) @
     [PlainLink ''/'' ''Home''] @
     (case snd (fst (memoized_neighbors isActive st)) of
        None \<Rightarrow> []
      | Some n \<Rightarrow>
          [ItemLink (url n) True True ChevronRight (name n)
             (case description n of None \<Rightarrow> ''Next page'' | Some d \<Rightarrow> d)]) \<and>
   fst (memoized_neighbors isActive (st\<lparr>memo := None\<rparr>)) =
     neighbors isActive (arrays st (footerList st)) (pathname st)"
proof -
  have 1: "link_description (FooterItemLink item 0) =
     (case description item of None \<Rightarrow> ''Previous page'' | Some d \<Rightarrow> d)"
    by (simp add: FooterItemLink_def split: option.splits)
  have 2: "link_description (FooterItemLink item 1) =
     (case description item of None \<Rightarrow> ''Next page'' | Some d \<Rightarrow> d)"
    by (simp add: FooterItemLink_def split: option.splits)
  have 3: "children (footer_grid previous next) =
     (case previous of None \<Rightarrow> [] | Some p \<Rightarrow> [FooterItemLink p 0]) @
     [PlainLink ''/'' ''Home''] @
     (case next of None \<Rightarrow> [] | Some n \<Rightarrow> [FooterItemLink n 1])"
    by (simp add: footer_grid_def Home_def)
  have 4: "children (fst (DocFooter isActive st)) =
     (case fst (fst (memoized_neighbors isActive st)) of
        None \<Rightarrow> []
      | Some p \<Rightarrow>
          [ItemLink (url p) False False ChevronLeft (name p)
             (case description p of None \<Rightarrow> ''Previous page'' | Some d \<Rightarrow> d)]) @
     [PlainLink ''/'' ''Home''] @
     (case snd (fst (memoized_neighbors isActive st)) of
        None \<Rightarrow> []
      | Some n \<Rightarrow>
          [ItemLink (url n) True True ChevronRight (name n)
             (case description n of None \<Rightarrow> ''Next page'' | Some d \<Rightarrow> d)])"
    by (simp add: DocFooter_view footer_grid_def Home_def FooterItemLink_def
        split: option.splits)
  have "memo_sound isActive (st\<lparr>memo := None\<rparr>)"
    by (simp add: memo_sound_def)
  from memoized_neighbors_sound [OF this]
  have 5: "fst (memoized_neighbors isActive (st\<lparr>memo := None\<rparr>)) =
     neighbors isActive (arrays st (footerList st)) (pathname st)"
    by simp
  from 1 2 3 4 5 show ?thesis by blast
qed

theorem footer_links_witness:
  "link_description (FooterItemLink (entry ''/a'' ''A'') 0) = ''Previous page'' \<and>
   link_description (FooterItemLink (entry ''/c'' ''C'') 1) = ''Next page'' \<and>
   children (fst (DocFooter isActive_spec
      \<lparr>arrays = example_arrays, footerList = 0, pathname = ''/b'', memo = None\<rparr>)) =
     [ItemLink ''/a'' False False ChevronLeft ''A'' ''Previous page'',
      PlainLink ''/'' ''Home'',
      ItemLink ''/c'' True True ChevronRight ''C'' ''Next page''] \<and>
   children (fst (DocFooter isActive_spec
      \<lparr>arrays = example_arrays, footerList = 0, pathname = ''/c'', memo = None\<rparr>)) =
     [ItemLink ''/b'' False False ChevronLeft ''B'' ''Basics'',
      PlainLink ''/'' ''Home''] \<and>
   children (fst (DocFooter isActive_spec
      \<lparr>arrays = example_arrays, footerList = 1, pathname = ''/z'', memo = None\<rparr>)) =
     [PlainLink ''/'' ''Home'']"
proof -
  let ?b = "\<lparr>arrays = example_arrays, footerList = 0, pathname = ''/b'', memo = None\<rparr>"
  let ?c = "\<lparr>arrays = example_arrays, footerList = 0, pathname = ''/c'', memo = None\<rparr>"
  let ?z = "\<lparr>arrays = example_arrays, footerList = 1, pathname = ''/z'', memo = None\<rparr>"
  have d: "description (entry ''/a'' ''A'') = None" "description (entry ''/c'' ''C'') = None"
    by (simp_all add: entry_def)
  have nb: "neighbors isActive_spec (example_arrays 0) ''/b'' =
      (Some (entry ''/a'' ''A''), Some (entry ''/c'' ''C''))"
    by (simp add: neighbors_def findIndex_def at_def isActive_spec_def entry_def
        example_arrays_def)
  have nc: "neighbors isActive_spec (example_arrays 0) ''/c'' =
      (Some \<lparr>url = ''/b'', name = ''B'', description = Some ''Basics''\<rparr>, None)"
    by (simp add: neighbors_def findIndex_def at_def isActive_spec_def entry_def
        example_arrays_def)
  have nz: "neighbors isActive_spec (example_arrays 1) ''/z'' = (None, None)"
    by (simp add: neighbors_def findIndex_def at_def isActive_spec_def entry_def
        example_arrays_def)
  from footer_links [where item = "entry ''/a'' ''A''"] d
  have 1: "link_description (FooterItemLink (entry ''/a'' ''A'') 0) = ''Previous page''"
    by simp
  from footer_links [where item = "entry ''/c'' ''C''"] d
  have 2: "link_description (FooterItemLink (entry ''/c'' ''C'') 1) = ''Next page''"
    by simp
  from footer_links [where isActive = isActive_spec and st = ?b] nb
  have 3: "children (fst (DocFooter isActive_spec ?b)) =
     [ItemLink ''/a'' False False ChevronLeft ''A'' ''Previous page'',
      PlainLink ''/'' ''Home'',
      ItemLink ''/c'' True True ChevronRight ''C'' ''Next page'']"
    by (simp add: entry_def)
  from footer_links [where isActive = isActive_spec and st = ?c] nc
  have 4: "children (fst (DocFooter isActive_spec ?c)) =
     [ItemLink ''/b'' False False ChevronLeft ''B'' ''Basics'', PlainLink ''/'' ''Home'']"
    by simp
  from footer_links [where isActive = isActive_spec and st = ?z] nz
  have 5: "children (fst (DocFooter isActive_spec ?z)) = [PlainLink ''/'' ''Home'']"
    by simp
  from 1 2 3 4 5 show ?thesis by simp
qed

end
